theory Spec2Isabelle
  imports Main
begin

section \<open>Data model of the data layer (src/data-layer/main.py)\<close>

text \<open>
  The enumeration \<^verbatim>\<open>AssetType\<close> and its \<^verbatim>\<open>.value\<close> strings.
\<close>

datatype AssetType =
  VPC | SUBNET | EC2 | S3 | IAM_ROLE | SECURITY_GROUP | USER | IGW | NI | LAMBDA | IAM_POLICY

fun asset_type_value :: "AssetType \<Rightarrow> string" where
  "asset_type_value VPC = ''vpc''"
| "asset_type_value SUBNET = ''subnet''"
| "asset_type_value EC2 = ''ec2''"
| "asset_type_value S3 = ''s3''"
| "asset_type_value IAM_ROLE = ''iam_role''"
| "asset_type_value SECURITY_GROUP = ''sg''"
| "asset_type_value USER = ''user''"
| "asset_type_value IGW = ''igw''"
| "asset_type_value NI = ''ni''"
| "asset_type_value LAMBDA = ''lambda''"
| "asset_type_value IAM_POLICY = ''iam_policy''"

text \<open>
  A JSON object (\<^verbatim>\<open>metadata\<close>, \<^verbatim>\<open>tags\<close>) is an association list. The table column
  holds \<^verbatim>\<open>json.dumps\<close> of it and every reader applies \<^verbatim>\<open>json.loads\<close>; the model keeps
  the object itself in the column. A timestamp is the value of
  \<^verbatim>\<open>datetime.utcnow().isoformat()\<close>, kept abstract as a number.
\<close>

type_synonym json = "(string \<times> string) list"
type_synonym timestamp = nat

text \<open>\<^verbatim>\<open>class AssetCreate(BaseModel)\<close>: the validated request body of a create.\<close>

record AssetCreate =
  unique_id :: string
  name :: string
  description :: "string option"
  metadata :: json
  tags :: json
  is_stale :: bool

text \<open>
  A row of the data frame of one asset type: the columns written by \<^verbatim>\<open>create_asset\<close>
  and \<^verbatim>\<open>create_assets_batch\<close>.
\<close>

record row = AssetCreate +
  asset_id :: string
  created_at :: timestamp
  updated_at :: timestamp

text \<open>
  The dictionary returned to the caller (its key \<^verbatim>\<open>id\<close> is the field \<open>asset_id\<close>) and
  written to the metadata sidecar: a row together with the asset type.
\<close>

record asset = row +
  asset_type :: AssetType

datatype validation_error = Missing nat string | OutOfRange string

datatype http_error =
    HTTP422 "validation_error list"
  | HTTP500 string

text \<open>
  A pandas data frame of asset rows. \<^verbatim>\<open>pd.DataFrame()\<close> has no columns at all, and
  \<^verbatim>\<open>df['unique_id']\<close> raises \<^verbatim>\<open>KeyError\<close> on it; a frame that has the asset columns
  may still have no rows. Concatenating a row to either gives a frame with columns.
\<close>

datatype frame = NoColumns | Frame "row list"

fun frame_rows :: "frame \<Rightarrow> row list" where
  "frame_rows NoColumns = []"
| "frame_rows (Frame xs) = xs"

text \<open>\<^verbatim>\<open>pd.concat([df, pd.DataFrame([new_row])], ignore_index=True)\<close>\<close>

definition concat_row :: "frame \<Rightarrow> row \<Rightarrow> frame" where
  "concat_row df r = Frame (frame_rows df @ [r])"

text \<open>
  The world a handler runs in: the bucket (one data file per asset type under
  \<^verbatim>\<open>data/{asset_type.value}.parquet\<close>, \<open>None\<close> when \<^verbatim>\<open>get_object\<close> raises
  \<^verbatim>\<open>NoSuchKey\<close>; the sidecars under \<^verbatim>\<open>metadata/{asset_id}.json\<close>), the number of
  \<^verbatim>\<open>put_object\<close> calls on data files so far, and the clock: the k-th call of
  \<^verbatim>\<open>datetime.utcnow()\<close> returns \<open>time_source k\<close>.
\<close>

record world =
  data_files :: "AssetType \<Rightarrow> frame option"
  metadata_files :: "string \<Rightarrow> asset option"
  data_puts :: nat
  clock_reads :: nat
  time_source :: "nat \<Rightarrow> timestamp"

definition utcnow :: "world \<Rightarrow> timestamp \<times> world" where
  "utcnow w = (time_source w (clock_reads w), w\<lparr>clock_reads := Suc (clock_reads w)\<rparr>)"

text \<open>
  \<^verbatim>\<open>try: df = pd.read_parquet(get_object(data_key)) except NoSuchKey: df = pd.DataFrame()\<close>
\<close>

definition read_parquet :: "world \<Rightarrow> AssetType \<Rightarrow> frame" where
  "read_parquet w t = (case data_files w t of None \<Rightarrow> NoColumns | Some df \<Rightarrow> df)"

text \<open>\<^verbatim>\<open>pq.write_table(...); s3_client.put_object(Key=data_key, ...)\<close>\<close>

definition put_data :: "world \<Rightarrow> AssetType \<Rightarrow> frame \<Rightarrow> world" where
  "put_data w t df = w\<lparr>data_files := (data_files w)(t \<mapsto> df), data_puts := Suc (data_puts w)\<rparr>"

definition put_metadata :: "world \<Rightarrow> string \<Rightarrow> asset \<Rightarrow> world" where
  "put_metadata w k m = w\<lparr>metadata_files := (metadata_files w)(k \<mapsto> m)\<rparr>"

text \<open>\<^verbatim>\<open>asset_id = f"AssetType.{asset_type.value}_{asset.unique_id}"\<close>\<close>

definition make_asset_id :: "AssetType \<Rightarrow> string \<Rightarrow> string" where
  "make_asset_id t u = ''AssetType.'' @ asset_type_value t @ ''_'' @ u"

definition mk_row :: "string \<Rightarrow> AssetCreate \<Rightarrow> timestamp \<Rightarrow> timestamp \<Rightarrow> row" where
  "mk_row aid a c u =
     \<lparr>unique_id = unique_id a, name = name a, description = description a,
      metadata = metadata a, tags = tags a, is_stale = is_stale a,
      asset_id = aid, created_at = c, updated_at = u\<rparr>"

definition to_asset :: "AssetType \<Rightarrow> row \<Rightarrow> asset" where
  "to_asset t r =
     \<lparr>unique_id = unique_id r, name = name r, description = description r,
      metadata = metadata r, tags = tags r, is_stale = is_stale r,
      asset_id = asset_id r, created_at = created_at r, updated_at = updated_at r,
      asset_type = t\<rparr>"

subsection \<open>POST /assets/{asset_type}: create_asset\<close>

text \<open>
  The handler builds the id, reads the clock twice (once for \<^verbatim>\<open>created_at\<close>, once for
  \<^verbatim>\<open>updated_at\<close>), writes the sidecar, reads the data file (an absent file is an empty
  frame), concatenates the new row and writes the frame back. It contains no test of
  the frame for the incoming \<^verbatim>\<open>unique_id\<close>.
\<close>

definition create_asset :: "world \<Rightarrow> AssetType \<Rightarrow> AssetCreate \<Rightarrow> (http_error + asset) \<times> world" where
  "create_asset w t a =
     (let aid = make_asset_id t (unique_id a);
          (c, w1) = utcnow w;
          (u, w2) = utcnow w1;
          new_row = mk_row aid a c u;
          w3 = put_metadata w2 (''metadata/'' @ aid @ ''.json'') (to_asset t new_row);
          df = read_parquet w3 t;
          df' = concat_row df new_row;
          w4 = put_data w3 t df'
      in (Inr (to_asset t new_row), w4))"

subsection \<open>PUT /assets/{asset_type}: update_asset\<close>

text \<open>
  The pandas statement \<^verbatim>\<open>df.loc[mask] = row\<close>, with a boolean mask over the rows and a
  series as the value, is a call into the library: given the rows of the frame, the mask
  and the series it gives back the new rows or raises.
\<close>

type_synonym 'r loc_setitem = "'r list \<Rightarrow> bool list \<Rightarrow> 'r \<Rightarrow> string + 'r list"

text \<open>
  On a frame of asset rows the statement does not assign the series to the selected rows.
  pandas aligns the series on the labels of the selected rows, not on the columns, which
  leaves one value per selected row; the frame has nine columns of mixed dtype
  (\<^verbatim>\<open>is_stale\<close> is boolean, the others are objects), so the assignment goes column by
  column and needs one value per column. Unless exactly nine rows are selected it raises
  \<^verbatim>\<open>ValueError\<close>. What it does when nine rows are selected is left as the parameter
  \<open>nine\<close>.
\<close>

definition loc_setitem_series :: "row loc_setitem \<Rightarrow> row loc_setitem" where
  "loc_setitem_series nine xs selected r =
     (if length (filter (\<lambda>b. b) selected) = 9 then nine xs selected r
      else Inl ''Must have equal len keys and value when setting with an iterable'')"

text \<open>
  The body of the loop over the input rows. \<^verbatim>\<open>mask = df['unique_id'] == row['unique_id']\<close>
  raises \<^verbatim>\<open>KeyError\<close> on a frame without columns. When the mask selects a row the
  statement \<^verbatim>\<open>df.loc[mask] = row\<close> runs; otherwise the row is concatenated (the input
  rows carry the columns of the table). The handler never reads the clock.
\<close>

definition update_row :: "row loc_setitem \<Rightarrow> row \<Rightarrow> frame \<Rightarrow> string + frame" where
  "update_row nine r df =
     (case df of
        NoColumns \<Rightarrow> Inl ''unique_id''
      | Frame xs \<Rightarrow>
          (let mask = map (\<lambda>x. unique_id x = unique_id r) xs
           in if True \<in> set mask
              then (case loc_setitem_series nine xs mask r of
                      Inl e \<Rightarrow> Inl e
                    | Inr xs' \<Rightarrow> Inr (Frame xs'))
              else Inr (concat_row df r)))"

fun update_loop :: "row loc_setitem \<Rightarrow> row list \<Rightarrow> frame \<Rightarrow> string + frame" where
  "update_loop nine [] df = Inr df"
| "update_loop nine (r # rs) df =
     (case update_row nine r df of Inl k \<Rightarrow> Inl k | Inr df' \<Rightarrow> update_loop nine rs df')"

text \<open>
  Every exception of the handler is answered with status 500 and its message; the table
  is written only after the loop.
\<close>

definition update_asset ::
  "row loc_setitem \<Rightarrow> world \<Rightarrow> AssetType \<Rightarrow> row list \<Rightarrow> (http_error + nat) \<times> world" where
  "update_asset nine w t new_data =
     (case update_loop nine new_data (read_parquet w t) of
        Inl k \<Rightarrow> (Inl (HTTP500 k), w)
      | Inr df \<Rightarrow> (Inr (length new_data), put_data w t df))"

subsection \<open>GET /assets/{asset_type}: list_assets_by_type\<close>

text \<open>
  \<^verbatim>\<open>page: int = Query(1, ge=1)\<close> and \<^verbatim>\<open>limit: int = Query(100, ge=1, le=1000)\<close> are
  rejected by the framework when out of range. \<^verbatim>\<open>df.iloc[skip:end_idx]\<close> is the slice
  of the rows from \<open>skip\<close> up to \<open>end_idx\<close>. The handler changes nothing.
\<close>

definition iloc :: "row list \<Rightarrow> int \<Rightarrow> int \<Rightarrow> row list" where
  "iloc xs i j = take (nat j - nat i) (drop (nat i) xs)"

definition list_assets_by_type :: "world \<Rightarrow> AssetType \<Rightarrow> int \<Rightarrow> int \<Rightarrow> http_error + asset list" where
  "list_assets_by_type w t page limit =
     (if page < 1 then Inl (HTTP422 [OutOfRange ''page''])
      else if limit < 1 \<or> 1000 < limit then Inl (HTTP422 [OutOfRange ''limit''])
      else (case data_files w t of
              None \<Rightarrow> Inr []
            | Some df \<Rightarrow>
                (let total_count = int (length (frame_rows df));
                     skip = (page - 1) * limit
                 in if skip \<ge> total_count then Inr []
                    else (let end_idx = min (skip + limit) total_count;
                              df_page = iloc (frame_rows df) skip end_idx
                          in Inr (map (to_asset t) df_page)))))"

subsection \<open>POST /assets/{asset_type}/batch: create_assets_batch\<close>

text \<open>
  An element of the request body before validation: a required field that is absent
  (or of the wrong type) is \<open>None\<close>. \<^verbatim>\<open>AssetCreate(**asset_dict)\<close> requires
  \<^verbatim>\<open>unique_id\<close> and \<^verbatim>\<open>name\<close> and fills the defaults of the other fields; on failure
  it raises \<^verbatim>\<open>ValidationError\<close> with one entry per offending field, in the order of the
  fields.
\<close>

record raw_asset =
  raw_unique_id :: "string option"
  raw_name :: "string option"
  raw_description :: "string option"
  raw_metadata :: "json option"
  raw_tags :: "json option"
  raw_is_stale :: "bool option"

definition validate_AssetCreate :: "nat \<Rightarrow> raw_asset \<Rightarrow> validation_error list + AssetCreate" where
  "validate_AssetCreate i r =
     (case (raw_unique_id r, raw_name r) of
        (Some u, Some n) \<Rightarrow>
          Inr \<lparr>unique_id = u, name = n, description = raw_description r,
               metadata = (case raw_metadata r of None \<Rightarrow> [] | Some m \<Rightarrow> m),
               tags = (case raw_tags r of None \<Rightarrow> [] | Some g \<Rightarrow> g),
               is_stale = (case raw_is_stale r of None \<Rightarrow> False | Some b \<Rightarrow> b)\<rparr>
      | (u, n) \<Rightarrow>
          Inl ((if u = None then [Missing i ''unique_id''] else [])
               @ (if n = None then [Missing i ''name''] else [])))"

text \<open>
  The parameter \<^verbatim>\<open>batch: AssetBatchCreate\<close>: the framework validates the whole body
  before the handler runs. Every element of \<^verbatim>\<open>assets\<close> is validated, and the errors
  of all the invalid elements are reported together, each under the index of its element;
  the handler runs only when there is none.
\<close>

fun validate_body :: "nat \<Rightarrow> raw_asset list \<Rightarrow> validation_error list + AssetCreate list" where
  "validate_body i [] = Inr []"
| "validate_body i (r # rs) =
     (case validate_AssetCreate i r of
        Inl e \<Rightarrow> (case validate_body (Suc i) rs of Inl es \<Rightarrow> Inl (e @ es) | Inr as \<Rightarrow> Inl e)
      | Inr a \<Rightarrow> (case validate_body (Suc i) rs of Inl es \<Rightarrow> Inl es | Inr as \<Rightarrow> Inr (a # as)))"

text \<open>
  The first loop of the handler, over the validated objects:
  \<^verbatim>\<open>asset_dict = asset.model_dump(); AssetCreate(**asset_dict)\<close>, and a
  \<^verbatim>\<open>ValidationError\<close> is re-raised, which ends the handler. The object built is dropped.
\<close>

definition model_dump :: "AssetCreate \<Rightarrow> raw_asset" where
  "model_dump a =
     \<lparr>raw_unique_id = Some (unique_id a), raw_name = Some (name a),
      raw_description = description a, raw_metadata = Some (metadata a),
      raw_tags = Some (tags a), raw_is_stale = Some (is_stale a)\<rparr>"

fun validate_assets :: "nat \<Rightarrow> AssetCreate list \<Rightarrow> validation_error list + unit" where
  "validate_assets i [] = Inr ()"
| "validate_assets i (a # as) =
     (case validate_AssetCreate i (model_dump a) of
        Inl e \<Rightarrow> Inl e
      | Inr b \<Rightarrow> validate_assets (Suc i) as)"

text \<open>
  The second loop. Each iteration reads the clock once, then evaluates
  \<^verbatim>\<open>existing_mask = df['unique_id'] == asset.unique_id\<close>, which raises \<^verbatim>\<open>KeyError\<close> on
  a frame without columns, before the test \<^verbatim>\<open>len(df) > 0 and existing_mask.any()\<close>.
  A match updates five columns and \<^verbatim>\<open>updated_at\<close> of every selected row and answers
  with the \<^verbatim>\<open>created_at\<close> of the first selected row; otherwise a new row is concatenated.
\<close>

definition update_columns :: "AssetCreate \<Rightarrow> timestamp \<Rightarrow> row \<Rightarrow> row" where
  "update_columns a now x =
     x\<lparr>name := name a, description := description a, metadata := metadata a,
       tags := tags a, is_stale := is_stale a, updated_at := now\<rparr>"

fun batch_loop ::
  "AssetType \<Rightarrow> AssetCreate list \<Rightarrow> frame \<Rightarrow> row list \<Rightarrow> world \<Rightarrow> (string + frame \<times> row list) \<times> world" where
  "batch_loop t [] df new_rows w = (Inr (df, new_rows), w)"
| "batch_loop t (a # as) df new_rows w =
     (case df of
        NoColumns \<Rightarrow> (Inl ''unique_id'', snd (utcnow w))
      | Frame xs \<Rightarrow>
          if 0 < length xs \<and> unique_id a \<in> set (map unique_id xs)
          then batch_loop t as
                 (Frame (map (\<lambda>x. if unique_id x = unique_id a
                                    then update_columns a (fst (utcnow w)) x else x) xs))
                 (new_rows @ [mk_row (make_asset_id t (unique_id a)) a
                     (created_at (hd (filter (\<lambda>x. unique_id x = unique_id a) xs)))
                     (fst (utcnow w))])
                 (snd (utcnow w))
          else batch_loop t as
                 (concat_row df (mk_row (make_asset_id t (unique_id a)) a
                     (fst (utcnow w)) (fst (utcnow w))))
                 (new_rows @ [mk_row (make_asset_id t (unique_id a)) a
                     (fst (utcnow w)) (fst (utcnow w))])
                 (snd (utcnow w)))"

text \<open>
  The handler on the validated batch: the first loop, the read of the data file, the
  second loop, one write of the frame, and the answer built from \<^verbatim>\<open>new_rows\<close>. A
  \<^verbatim>\<open>ValidationError\<close> is answered with status 422, any other exception with 500.
\<close>

definition create_assets_batch_handler ::
  "world \<Rightarrow> AssetType \<Rightarrow> AssetCreate list \<Rightarrow> (http_error + asset list) \<times> world" where
  "create_assets_batch_handler w t assets =
     (case validate_assets 0 assets of
        Inl errs \<Rightarrow> (Inl (HTTP422 errs), w)
      | Inr u \<Rightarrow>
          (case batch_loop t assets (read_parquet w t) [] w of
             (Inl k, w1) \<Rightarrow> (Inl (HTTP500 k), w1)
           | (Inr (df, new_rows), w1) \<Rightarrow> (Inr (map (to_asset t) new_rows), put_data w1 t df)))"

text \<open>The endpoint: the validation of the body, then the handler.\<close>

definition create_assets_batch ::
  "world \<Rightarrow> AssetType \<Rightarrow> raw_asset list \<Rightarrow> (http_error + asset list) \<times> world" where
  "create_assets_batch w t batch =
     (case validate_body 0 batch of
        Inl errs \<Rightarrow> (Inl (HTTP422 errs), w)
      | Inr assets \<Rightarrow> create_assets_batch_handler w t assets)"

section \<open>The store client (data_layer_client.py)\<close>

text \<open>
  The client reads and writes whole tables of dictionaries keyed by \<^verbatim>\<open>UniqueId\<close>
  through \<^verbatim>\<open>read_assets\<close> and \<^verbatim>\<open>write_assets\<close>. The remote side is the table it
  serves, the list of tables written so far, and whether the call gets through
  (\<^verbatim>\<open>raise_for_status\<close> and transport errors are re-raised by both).
\<close>

record client_row =
  UniqueId :: string
  attributes :: json

record remote =
  reachable :: bool
  remote_table :: "client_row list"
  writes :: "client_row list list"

datatype client_error =
    RequestFailed
  | LibraryError string
  | DuplicateUniqueIds "string set"
  | AssetsNotFound "string set"

definition read_assets :: "remote \<Rightarrow> client_error + client_row list" where
  "read_assets r = (if reachable r then Inr (remote_table r) else Inl RequestFailed)"

definition write_assets :: "remote \<Rightarrow> client_row list \<Rightarrow> client_error + remote" where
  "write_assets r assets =
     (if reachable r then Inr (r\<lparr>remote_table := assets, writes := writes r @ [assets]\<rparr>)
      else Inl RequestFailed)"

text \<open>\<^verbatim>\<open>batch_create_assets\<close>; \<^verbatim>\<open>df.empty\<close> is the test for a frame without rows.\<close>

definition batch_create_assets ::
  "remote \<Rightarrow> client_row list \<Rightarrow> (client_error + client_row list) \<times> remote" where
  "batch_create_assets r assets =
     (case read_assets r of
        Inl e \<Rightarrow> (Inl e, r)
      | Inr existing_df \<Rightarrow>
          if existing_df \<noteq> [] \<and> assets \<noteq> []
             \<and> set (map UniqueId assets) \<inter> set (map UniqueId existing_df) \<noteq> {}
          then (Inl (DuplicateUniqueIds
                      (set (map UniqueId assets) \<inter> set (map UniqueId existing_df))), r)
          else (let combined_df =
                      (if existing_df = [] then assets
                       else if assets = [] then existing_df
                       else existing_df @ assets)
                in case write_assets r combined_df of
                     Inl e \<Rightarrow> (Inl e, r)
                   | Inr r' \<Rightarrow> (Inr assets, r')))"

text \<open>
  \<^verbatim>\<open>batch_update_assets\<close>. The mask is computed once, on the table as read; the rows
  are then overwritten, one update at a time, by
  \<^verbatim>\<open>existing_df.loc[existing_df['UniqueId'] == row['UniqueId']] = row\<close>, and the written
  table is the rows outside the mask followed by the rows inside it.
\<close>

fun assign_rows ::
  "client_row loc_setitem \<Rightarrow> client_row list \<Rightarrow> client_row list \<Rightarrow> string + client_row list" where
  "assign_rows setitem [] df = Inr df"
| "assign_rows setitem (u # us) df =
     (case setitem df (map (\<lambda>x. UniqueId x = UniqueId u) df) u of
        Inl e \<Rightarrow> Inl e
      | Inr df' \<Rightarrow> assign_rows setitem us df')"

definition batch_update_assets ::
  "client_row loc_setitem \<Rightarrow> remote \<Rightarrow> client_row list
     \<Rightarrow> (client_error + client_row list) \<times> remote" where
  "batch_update_assets setitem r updates =
     (case read_assets r of
        Inl e \<Rightarrow> (Inl e, r)
      | Inr existing_df \<Rightarrow>
          if existing_df \<noteq> [] \<and> updates \<noteq> []
             \<and> set (map UniqueId updates) - set (map UniqueId existing_df) \<noteq> {}
          then (Inl (AssetsNotFound
                      (set (map UniqueId updates) - set (map UniqueId existing_df))), r)
          else if existing_df = [] then (Inr updates, r)
          else if updates = [] then (Inr [], r)
          else (let mask = map (\<lambda>x. UniqueId x \<in> set (map UniqueId updates)) existing_df;
                    non_matching_df = map snd (filter (\<lambda>p. \<not> fst p) (zip mask existing_df))
                in case assign_rows setitem updates existing_df of
                     Inl e \<Rightarrow> (Inl (LibraryError e), r)
                   | Inr updated_df \<Rightarrow>
                       (let combined_df =
                              non_matching_df @ map snd (filter fst (zip mask updated_df))
                        in case write_assets r combined_df of
                             Inl e \<Rightarrow> (Inl e, r)
                           | Inr r' \<Rightarrow> (Inr updates, r'))))"

section \<open>The service facade's batch create with fallback (service.py)\<close>

text \<open>
  The outcome of one \<^verbatim>\<open>client.post\<close> followed by \<^verbatim>\<open>raise_for_status\<close> and the parse of
  the answer: the parsed value, an \<^verbatim>\<open>httpx.HTTPStatusError\<close> with its status code, or
  any other exception. The data layer behind the connection is a parameter: a state
  and the two endpoints as functions of it.
\<close>

datatype 'a outcome = Success 'a | HTTPStatusError nat | OtherException

text \<open>
  \<^verbatim>\<open>formatted_asset\<close>: the dictionary's entries with the defaults of \<^verbatim>\<open>asset.get\<close>.
\<close>

definition format_asset :: "raw_asset \<Rightarrow> AssetCreate" where
  "format_asset a =
     \<lparr>unique_id = (case raw_unique_id a of None \<Rightarrow> [] | Some u \<Rightarrow> u),
      name = (case raw_name a of None \<Rightarrow> [] | Some n \<Rightarrow> n),
      description = Some (case raw_description a of None \<Rightarrow> [] | Some d \<Rightarrow> d),
      metadata = (case raw_metadata a of None \<Rightarrow> [] | Some m \<Rightarrow> m),
      tags = (case raw_tags a of None \<Rightarrow> [] | Some g \<Rightarrow> g),
      is_stale = (case raw_is_stale a of None \<Rightarrow> False | Some b \<Rightarrow> b)\<rparr>"

text \<open>
  The fallback loop: one individual post per input, in order; a success is appended to
  \<^verbatim>\<open>created_assets\<close>, any exception is logged and the loop goes on. The log keeps, per
  attempt, the request sent and its outcome.
\<close>

fun fallback_loop ::
  "('s \<Rightarrow> AssetCreate \<Rightarrow> asset outcome \<times> 's) \<Rightarrow> raw_asset list \<Rightarrow> asset list
     \<Rightarrow> (AssetCreate \<times> asset outcome) list \<Rightarrow> 's
     \<Rightarrow> asset list \<times> (AssetCreate \<times> asset outcome) list \<times> 's" where
  "fallback_loop post [] created_assets log s = (created_assets, log, s)"
| "fallback_loop post (a # as) created_assets log s =
     (case post s (format_asset a) of
        (Success created_asset, s') \<Rightarrow>
          fallback_loop post as (created_assets @ [created_asset])
            (log @ [(format_asset a, Success created_asset)]) s'
      | (failure, s') \<Rightarrow>
          fallback_loop post as created_assets (log @ [(format_asset a, failure)]) s')"

definition service_create_assets_batch ::
  "('s \<Rightarrow> raw_asset list \<Rightarrow> asset list outcome \<times> 's)
     \<Rightarrow> ('s \<Rightarrow> AssetCreate \<Rightarrow> asset outcome \<times> 's)
     \<Rightarrow> 's \<Rightarrow> raw_asset list
     \<Rightarrow> (http_error + asset list) \<times> (AssetCreate \<times> asset outcome) list \<times> 's" where
  "service_create_assets_batch post_batch post s assets =
     (case post_batch s assets of
        (Success created, s') \<Rightarrow> (Inr created, [], s')
      | (HTTPStatusError code, s') \<Rightarrow>
          (case fallback_loop post assets [] [] s' of
             (created_assets, log, s'') \<Rightarrow> (Inr created_assets, log, s''))
      | (OtherException, s') \<Rightarrow> (Inl (HTTP500 ''create_assets_batch''), [], s'))"

section \<open>Concrete inputs used by the examples\<close>

definition empty_world :: world where
  "empty_world =
     \<lparr>data_files = (\<lambda>_. None), metadata_files = (\<lambda>_. None), data_puts = 0,
      clock_reads = 0, time_source = (\<lambda>k. 100 + k)\<rparr>"

definition asset_i1 :: AssetCreate where
  "asset_i1 =
     \<lparr>unique_id = ''i-1'', name = ''web'', description = None,
      metadata = [], tags = [], is_stale = False\<rparr>"

definition world_i1 :: world where
  "world_i1 = snd (create_asset empty_world EC2 asset_i1)"

definition raw_i1 :: raw_asset where
  "raw_i1 =
     \<lparr>raw_unique_id = Some ''i-1'', raw_name = Some ''renamed'', raw_description = None,
      raw_metadata = None, raw_tags = None, raw_is_stale = None\<rparr>"

definition raw_i2 :: raw_asset where
  "raw_i2 =
     \<lparr>raw_unique_id = Some ''i-2'', raw_name = Some ''new'', raw_description = None,
      raw_metadata = None, raw_tags = None, raw_is_stale = None\<rparr>"

definition raw_bad :: raw_asset where
  "raw_bad =
     \<lparr>raw_unique_id = Some ''i-3'', raw_name = None, raw_description = None,
      raw_metadata = None, raw_tags = None, raw_is_stale = None\<rparr>"

text \<open>The world after \<open>n\<close> further readings of the clock.\<close>

definition tick :: "nat \<Rightarrow> world \<Rightarrow> world" where
  "tick n w = w\<lparr>clock_reads := clock_reads w + n\<rparr>"

definition three_rows :: "row list" where
  "three_rows =
     [mk_row ''AssetType.ec2_a'' (asset_i1\<lparr>unique_id := ''a''\<rparr>) 1 1,
      mk_row ''AssetType.ec2_b'' (asset_i1\<lparr>unique_id := ''b''\<rparr>) 2 2,
      mk_row ''AssetType.ec2_c'' (asset_i1\<lparr>unique_id := ''c''\<rparr>) 3 3]"

definition world_three :: world where
  "world_three = put_data empty_world EC2 (Frame three_rows)"

definition row_upd :: row where
  "row_upd = mk_row ''AssetType.ec2_i-1'' (asset_i1\<lparr>name := ''renamed''\<rparr>) 7 8"

definition row_new :: row where
  "row_new = mk_row ''AssetType.ec2_i-9'' (asset_i1\<lparr>unique_id := ''i-9''\<rparr>) 7 8"

definition crow :: "string \<Rightarrow> client_row" where
  "crow u = \<lparr>UniqueId = u, attributes = []\<rparr>"

definition remote_empty :: remote where
  "remote_empty = \<lparr>reachable = True, remote_table = [], writes = []\<rparr>"

definition remote_one :: remote where
  "remote_one = \<lparr>reachable = True, remote_table = [crow ''u0''], writes = []\<rparr>"

text \<open>
  The fallback as the specification words it: one individual create per submitted record,
  in order, each against the data layer as the previous attempt left it; the result is the
  list of the records whose create succeeded.
\<close>

fun attempt_each ::
  "('s \<Rightarrow> AssetCreate \<Rightarrow> asset outcome \<times> 's) \<Rightarrow> 's \<Rightarrow> AssetCreate list
     \<Rightarrow> asset outcome list \<times> 's" where
  "attempt_each post s [] = ([], s)"
| "attempt_each post s (a # as) =
     (case post s a of
        (res, s') \<Rightarrow> (case attempt_each post s' as of (rs, s'') \<Rightarrow> (res # rs, s'')))"

fun succeeded :: "asset outcome list \<Rightarrow> asset list" where
  "succeeded [] = []"
| "succeeded (Success a # rs) = a # succeeded rs"
| "succeeded (failure # rs) = succeeded rs"

text \<open>
  A data layer for the examples: the batch endpoint rejects every call with status 422;
  the single endpoint rejects a record without a name with status 422 and otherwise
  answers with the record, counting the calls it receives.
\<close>

definition reject_batch :: "nat \<Rightarrow> raw_asset list \<Rightarrow> asset list outcome \<times> nat" where
  "reject_batch s assets = (HTTPStatusError 422, s)"

definition post_named :: "nat \<Rightarrow> AssetCreate \<Rightarrow> asset outcome \<times> nat" where
  "post_named s a =
     (if name a = [] then (HTTPStatusError 422, Suc s)
      else (Success (to_asset EC2 (mk_row (make_asset_id EC2 (unique_id a)) a 0 0)), Suc s))"

definition five_assets :: "raw_asset list" where
  "five_assets = [raw_i1, raw_bad, raw_i2, raw_bad, raw_i1]"

definition world_legacy :: world where
  "world_legacy = put_data empty_world EC2 (Frame [mk_row ''legacy-id'' asset_i1 1 1])"


section \<open>Properties of create_asset\<close>

lemma read_parquet_put_data [simp]: "read_parquet (put_data w t df) t = df"
  by (simp add: read_parquet_def put_data_def)

lemma read_parquet_put_metadata [simp]: "read_parquet (put_metadata w k m) t = read_parquet w t"
  by (simp add: read_parquet_def put_metadata_def)

lemma read_parquet_utcnow [simp]: "read_parquet (snd (utcnow w)) t = read_parquet w t"
  by (simp add: read_parquet_def utcnow_def)

lemma create_asset_table:
  "read_parquet (snd (create_asset w t a)) t =
     concat_row (read_parquet w t)
       (mk_row (make_asset_id t (unique_id a)) a
          (time_source w (clock_reads w)) (time_source w (Suc (clock_reads w))))"
  by (simp add: create_asset_def Let_def utcnow_def read_parquet_def put_data_def
      put_metadata_def)

lemma create_asset_result:
  "fst (create_asset w t a) =
     Inr (to_asset t (mk_row (make_asset_id t (unique_id a)) a
          (time_source w (clock_reads w)) (time_source w (Suc (clock_reads w)))))"
  by (simp add: create_asset_def Let_def utcnow_def)

lemma unique_id_mk_row [simp]: "unique_id (mk_row aid a c u) = unique_id a"
  by (simp add: mk_row_def)

lemma asset_id_mk_row [simp]: "asset_id (mk_row aid a c u) = aid"
  by (simp add: mk_row_def)

lemma asset_id_to_asset [simp]: "asset_id (to_asset t r) = asset_id r"
  by (simp add: to_asset_def)

lemma unique_id_to_asset [simp]: "unique_id (to_asset t r) = unique_id r"
  by (simp add: to_asset_def)

lemma frame_rows_concat_row [simp]: "frame_rows (concat_row df r) = frame_rows df @ [r]"
  by (simp add: concat_row_def)

lemma read_parquet_empty_world [simp]: "read_parquet empty_world t = NoColumns"
  by (simp add: read_parquet_def empty_world_def)

lemma world_i1_table:
  "map unique_id (frame_rows (read_parquet world_i1 EC2)) = [''i-1'']"
  by (simp add: world_i1_def create_asset_table asset_i1_def)

text \<open>
  C1 (as stated, refuted): a create whose \<open>unique_id\<close> is already in the table does not
  fail and does not leave the table unchanged. In \<open>world_i1\<close> the table of \<open>EC2\<close> holds
  \<open>i-1\<close>; creating \<open>i-1\<close> again succeeds and the table then holds \<open>i-1\<close> twice.
\<close>

theorem create_asset_duplicate_counterexample:
  "''i-1'' \<in> set (map unique_id (frame_rows (read_parquet world_i1 EC2)))
   \<and> \<not> isl (fst (create_asset world_i1 EC2 asset_i1))
   \<and> map unique_id (frame_rows (read_parquet (snd (create_asset world_i1 EC2 asset_i1)) EC2))
       = [''i-1'', ''i-1'']
   \<and> \<not> distinct (map unique_id
          (frame_rows (read_parquet (snd (create_asset world_i1 EC2 asset_i1)) EC2)))"
  by (simp add: create_asset_table create_asset_result world_i1_table asset_i1_def)

text \<open>
  C1 (amended): for every asset type, table state and record, create succeeds whether or
  not the \<open>unique_id\<close> is already present. It answers with the record as submitted,
  under the derived id and the two clock readings, and the world afterwards is the world
  before with exactly that row appended to the end of the table of the type (the tables
  of the other types are untouched), the sidecar of the id written, one more write of a
  data file and two more clock readings.
\<close>

theorem create_asset_always_appends:
  "create_asset w t a =
     (Inr \<lparr>unique_id = unique_id a, name = name a, description = description a,
           metadata = metadata a, tags = tags a, is_stale = is_stale a,
           asset_id = ''AssetType.'' @ asset_type_value t @ ''_'' @ unique_id a,
           created_at = time_source w (clock_reads w),
           updated_at = time_source w (Suc (clock_reads w)),
           asset_type = t\<rparr>,
      w\<lparr>data_files := (data_files w)(t \<mapsto>
            Frame (frame_rows (read_parquet w t) @
              [\<lparr>unique_id = unique_id a, name = name a, description = description a,
                metadata = metadata a, tags = tags a, is_stale = is_stale a,
                asset_id = ''AssetType.'' @ asset_type_value t @ ''_'' @ unique_id a,
                created_at = time_source w (clock_reads w),
                updated_at = time_source w (Suc (clock_reads w))\<rparr>])),
         metadata_files := (metadata_files w)
           (''metadata/'' @ (''AssetType.'' @ asset_type_value t @ ''_'' @ unique_id a) @ ''.json'' \<mapsto>
            \<lparr>unique_id = unique_id a, name = name a, description = description a,
             metadata = metadata a, tags = tags a, is_stale = is_stale a,
             asset_id = ''AssetType.'' @ asset_type_value t @ ''_'' @ unique_id a,
             created_at = time_source w (clock_reads w),
             updated_at = time_source w (Suc (clock_reads w)),
             asset_type = t\<rparr>),
         data_puts := Suc (data_puts w),
         clock_reads := Suc (Suc (clock_reads w))\<rparr>)"
  by (simp add: create_asset_def Let_def utcnow_def put_data_def put_metadata_def
      read_parquet_def concat_row_def mk_row_def to_asset_def make_asset_id_def
      split: option.split)

section \<open>Properties of create_assets_batch\<close>

lemma utcnow_fst [simp]: "fst (utcnow w) = time_source w (clock_reads w)"
  by (simp add: utcnow_def)

lemma tick_0 [simp]: "tick 0 w = w"
  by (simp add: tick_def)

lemma tick_utcnow [simp]: "tick n (snd (utcnow w)) = tick (Suc n) w"
  by (simp add: tick_def utcnow_def)

lemma read_parquet_tick [simp]: "read_parquet (tick n w) t = read_parquet w t"
  by (simp add: tick_def read_parquet_def)

lemma unique_id_update_columns [simp]: "unique_id (update_columns a n x) = unique_id x"
  by (simp add: update_columns_def)

lemma created_at_update_columns [simp]: "created_at (update_columns a n x) = created_at x"
  by (simp add: update_columns_def)

lemma asset_id_update_columns [simp]: "asset_id (update_columns a n x) = asset_id x"
  by (simp add: update_columns_def)

subsection \<open>Validation\<close>

text \<open>
  The first loop of the handler never raises: a validated object, dumped and validated
  again, is valid.
\<close>

lemma validate_model_dump: "validate_AssetCreate i (model_dump a) = Inr a"
  by (simp add: validate_AssetCreate_def model_dump_def)

lemma validate_assets_ok: "validate_assets i as = Inr ()"
  by (induction as arbitrary: i) (simp_all add: validate_model_dump)


lemma validate_AssetCreate_Inr:
  "validate_AssetCreate i r = Inr a \<Longrightarrow>
     raw_unique_id r = Some (unique_id a) \<and> raw_name r = Some (name a)"
  by (auto simp: validate_AssetCreate_def split: option.splits)


text \<open>
  The validation of the body either accepts every element, in order, or reports the
  field errors of all the invalid elements, each under its index.
\<close>

lemma validate_body_Inr:
  "validate_body i rs = Inr as \<Longrightarrow> map (\<lambda>a. Some (unique_id a)) as = map raw_unique_id rs"
proof (induction rs arbitrary: i as)
  case Nil
  then show ?case by simp
next
  case (Cons r rs)
  from Cons.prems obtain a as' where
    a: "validate_AssetCreate i r = Inr a" and as': "validate_body (Suc i) rs = Inr as'"
    and eq: "as = a # as'"
    by (auto split: sum.splits)
  from Cons.IH [OF as'] validate_AssetCreate_Inr [OF a] eq show ?case by simp
qed




subsection \<open>The second loop\<close>

text \<open>
  On a frame that has columns the second loop never raises. It reads the clock once per
  asset and answers with one row per asset, in input order, each under the derived id.
  Every row of the frame stays in its place with its \<open>unique_id\<close>, its \<open>created_at\<close> and
  its \<open>asset_id\<close>; rows are only added at the end, and each added row carries the id
  derived from its own \<open>unique_id\<close>.
\<close>

lemma batch_loop_Frame:
  "\<exists>xs' rows'. batch_loop t as (Frame xs) new_rows w
       = (Inr (Frame xs', new_rows @ rows'), tick (length as) w)
     \<and> map unique_id rows' = map unique_id as
     \<and> map asset_id rows' = map (\<lambda>a. make_asset_id t (unique_id a)) as
     \<and> length xs \<le> length xs'
     \<and> map unique_id (take (length xs) xs') = map unique_id xs
     \<and> map created_at (take (length xs) xs') = map created_at xs
     \<and> map asset_id (take (length xs) xs') = map asset_id xs
     \<and> list_all (\<lambda>x. asset_id x = make_asset_id t (unique_id x)) (drop (length xs) xs')"
proof (induction as arbitrary: xs new_rows w)
  case Nil
  then show ?case by simp
next
  case (Cons a as)
  show ?case
  proof (cases "0 < length xs \<and> unique_id a \<in> set (map unique_id xs)")
    case True
    let ?xs1 = "map (\<lambda>x. if unique_id x = unique_id a
                      then update_columns a (fst (utcnow w)) x else x) xs"
    let ?r = "mk_row (make_asset_id t (unique_id a)) a
                (created_at (hd (filter (\<lambda>x. unique_id x = unique_id a) xs))) (fst (utcnow w))"
    have keep: "map unique_id ?xs1 = map unique_id xs" "map created_at ?xs1 = map created_at xs"
      "map asset_id ?xs1 = map asset_id xs" "length ?xs1 = length xs"
      by (simp_all add: comp_def cong: map_cong)
    from Cons.IH [of ?xs1 "new_rows @ [?r]" "snd (utcnow w)"]
    obtain xs' rows' where
      h: "batch_loop t as (Frame ?xs1) (new_rows @ [?r]) (snd (utcnow w))
            = (Inr (Frame xs', (new_rows @ [?r]) @ rows'), tick (length as) (snd (utcnow w)))"
         "map unique_id rows' = map unique_id as"
         "map asset_id rows' = map (\<lambda>a. make_asset_id t (unique_id a)) as"
         "length ?xs1 \<le> length xs'"
         "map unique_id (take (length ?xs1) xs') = map unique_id ?xs1"
         "map created_at (take (length ?xs1) xs') = map created_at ?xs1"
         "map asset_id (take (length ?xs1) xs') = map asset_id ?xs1"
         "list_all (\<lambda>x. asset_id x = make_asset_id t (unique_id x)) (drop (length ?xs1) xs')"
      by blast
    have run: "batch_loop t (a # as) (Frame xs) new_rows w
                 = (Inr (Frame xs', new_rows @ (?r # rows')), tick (length (a # as)) w)"
      using True h(1) by simp
    show ?thesis
      apply (rule exI [of _ xs'], rule exI [of _ "?r # rows'"])
      using run h(2-8) unfolding keep by simp
  next
    case False
    let ?r = "mk_row (make_asset_id t (unique_id a)) a (fst (utcnow w)) (fst (utcnow w))"
    let ?n = "length xs"
    from Cons.IH [of "xs @ [?r]" "new_rows @ [?r]" "snd (utcnow w)"]
    obtain xs' rows' where
      h: "batch_loop t as (Frame (xs @ [?r])) (new_rows @ [?r]) (snd (utcnow w))
            = (Inr (Frame xs', (new_rows @ [?r]) @ rows'), tick (length as) (snd (utcnow w)))"
         "map unique_id rows' = map unique_id as"
         "map asset_id rows' = map (\<lambda>a. make_asset_id t (unique_id a)) as"
         "length (xs @ [?r]) \<le> length xs'"
         "map unique_id (take (length (xs @ [?r])) xs') = map unique_id (xs @ [?r])"
         "map created_at (take (length (xs @ [?r])) xs') = map created_at (xs @ [?r])"
         "map asset_id (take (length (xs @ [?r])) xs') = map asset_id (xs @ [?r])"
         "list_all (\<lambda>x. asset_id x = make_asset_id t (unique_id x))
            (drop (length (xs @ [?r])) xs')"
      by blast
    have n: "?n < length xs'" using h(4) by simp
    have run: "batch_loop t (a # as) (Frame xs) new_rows w
                 = (Inr (Frame xs', new_rows @ (?r # rows')), tick (length (a # as)) w)"
      using False h(1) by (auto simp: concat_row_def)
    have tk: "take ?n xs' = take ?n (take (Suc ?n) xs')"
      by (simp add: min_def)
    have u: "map unique_id (take ?n xs') = map unique_id xs"
    proof -
      have "map unique_id (take ?n xs') = take ?n (map unique_id (take (Suc ?n) xs'))"
        by (simp add: take_map min_def)
      then show ?thesis using h(5) by simp
    qed
    have c: "map created_at (take ?n xs') = map created_at xs"
    proof -
      have "map created_at (take ?n xs') = take ?n (map created_at (take (Suc ?n) xs'))"
        by (simp add: take_map min_def)
      then show ?thesis using h(6) by simp
    qed
    have i: "map asset_id (take ?n xs') = map asset_id xs"
    proof -
      have "map asset_id (take ?n xs') = take ?n (map asset_id (take (Suc ?n) xs'))"
        by (simp add: take_map min_def)
      then show ?thesis using h(7) by simp
    qed
    have "map unique_id (take (Suc ?n) xs') ! ?n = unique_id (xs' ! ?n)"
      and "map asset_id (take (Suc ?n) xs') ! ?n = asset_id (xs' ! ?n)"
      using n by simp_all
    then have "unique_id (xs' ! ?n) = unique_id a"
      and "asset_id (xs' ! ?n) = make_asset_id t (unique_id a)"
      using h(5) h(7) by (simp_all add: nth_append)
    then have d: "list_all (\<lambda>x. asset_id x = make_asset_id t (unique_id x)) (drop ?n xs')"
      using h(8) n by (simp add: Cons_nth_drop_Suc [symmetric])
    show ?thesis
      apply (rule exI [of _ xs'], rule exI [of _ "?r # rows'"])
      using run h(2,3) n u c i d by simp
  qed
qed

subsection \<open>The endpoint on concrete inputs\<close>

lemma empty_world_clock [simp]:
  "clock_reads empty_world = 0" "time_source empty_world = (\<lambda>k. 100 + k)"
  "data_puts empty_world = 0"
  by (simp_all add: empty_world_def)

lemma world_i1_frame:
  "read_parquet world_i1 EC2 = Frame [mk_row ''AssetType.ec2_i-1'' asset_i1 100 101]"
  unfolding world_i1_def create_asset_table
  by (simp add: concat_row_def make_asset_id_def asset_i1_def mk_row_def)

lemma world_i1_clock:
  "clock_reads world_i1 = 2" "time_source world_i1 = (\<lambda>k. 100 + k)" "data_puts world_i1 = 1"
  by (simp_all add: world_i1_def create_asset_def Let_def utcnow_def put_data_def
      put_metadata_def empty_world_def)

lemma world_legacy_frame:
  "read_parquet world_legacy EC2 = Frame [mk_row ''legacy-id'' asset_i1 1 1]"
  by (simp add: world_legacy_def)

lemma world_legacy_clock:
  "clock_reads world_legacy = 0" "time_source world_legacy = (\<lambda>k. 100 + k)"
  by (simp_all add: world_legacy_def put_data_def)

lemma validate_i1_i2:
  "validate_body 0 [raw_i1, raw_i2] =
     Inr [\<lparr>unique_id = ''i-1'', name = ''renamed'', description = None,
           metadata = [], tags = [], is_stale = False\<rparr>,
          \<lparr>unique_id = ''i-2'', name = ''new'', description = None,
           metadata = [], tags = [], is_stale = False\<rparr>]"
  by (simp add: validate_AssetCreate_def raw_i1_def raw_i2_def)

lemma validate_i1:
  "validate_body 0 [raw_i1] =
     Inr [\<lparr>unique_id = ''i-1'', name = ''renamed'', description = None,
           metadata = [], tags = [], is_stale = False\<rparr>]"
  by (simp add: validate_AssetCreate_def raw_i1_def)

text \<open>
  The scenario of the specification on the model: after the create of \<open>i-1\<close>, the batch
  \<open>[i-1 renamed, i-2 new]\<close> answers with \<open>i-1\<close> under its first \<open>created_at\<close> and with a
  new \<open>i-2\<close>, and the table holds the two rows.
\<close>

lemma batch_i1_i2:
  "create_assets_batch world_i1 EC2 [raw_i1, raw_i2] =
     (Inr [\<lparr>unique_id = ''i-1'', name = ''renamed'', description = None,
            metadata = [], tags = [], is_stale = False,
            asset_id = ''AssetType.ec2_i-1'', created_at = 100, updated_at = 102,
            asset_type = EC2\<rparr>,
           \<lparr>unique_id = ''i-2'', name = ''new'', description = None,
            metadata = [], tags = [], is_stale = False,
            asset_id = ''AssetType.ec2_i-2'', created_at = 103, updated_at = 103,
            asset_type = EC2\<rparr>],
      put_data (tick 2 world_i1) EC2
        (Frame [\<lparr>unique_id = ''i-1'', name = ''renamed'', description = None,
                 metadata = [], tags = [], is_stale = False,
                 asset_id = ''AssetType.ec2_i-1'', created_at = 100, updated_at = 102\<rparr>,
                \<lparr>unique_id = ''i-2'', name = ''new'', description = None,
                 metadata = [], tags = [], is_stale = False,
                 asset_id = ''AssetType.ec2_i-2'', created_at = 103, updated_at = 103\<rparr>]))"
  unfolding create_assets_batch_def validate_i1_i2
  by (simp add: create_assets_batch_handler_def validate_assets_ok world_i1_frame
      world_i1_clock utcnow_def mk_row_def asset_i1_def update_columns_def concat_row_def
      to_asset_def make_asset_id_def tick_def)

lemma batch_legacy:
  "create_assets_batch world_legacy EC2 [raw_i1] =
     (Inr [\<lparr>unique_id = ''i-1'', name = ''renamed'', description = None,
            metadata = [], tags = [], is_stale = False,
            asset_id = ''AssetType.ec2_i-1'', created_at = 1, updated_at = 100,
            asset_type = EC2\<rparr>],
      put_data (tick 1 world_legacy) EC2
        (Frame [\<lparr>unique_id = ''i-1'', name = ''renamed'', description = None,
                 metadata = [], tags = [], is_stale = False,
                 asset_id = ''legacy-id'', created_at = 1, updated_at = 100\<rparr>]))"
  unfolding create_assets_batch_def validate_i1
  by (simp add: create_assets_batch_handler_def validate_assets_ok world_legacy_frame
      world_legacy_clock utcnow_def mk_row_def asset_i1_def update_columns_def concat_row_def
      to_asset_def make_asset_id_def tick_def)

subsection \<open>The derived id\<close>

text \<open>
  C2 (as stated, refuted): creating the \<open>ec2\<close> record \<open>i-1\<close> does not yield the id
  \<open>ec2_i-1\<close>; the id carries the literal prefix \<open>AssetType.\<close> of the format string.
  And the id stored by the batch is not always the id it returns: on a table that holds
  \<open>i-1\<close> under the id \<open>legacy-id\<close>, the batch of \<open>i-1\<close> returns the derived id and
  leaves \<open>legacy-id\<close> in the stored row.
\<close>

theorem asset_id_format_counterexample:
  "asset_id (projr (fst (create_asset empty_world EC2 asset_i1))) = ''AssetType.ec2_i-1''
   \<and> asset_type_value EC2 @ ''_'' @ unique_id asset_i1 = ''ec2_i-1''
   \<and> asset_id (projr (fst (create_asset empty_world EC2 asset_i1))) \<noteq> ''ec2_i-1''
   \<and> map asset_id (frame_rows (read_parquet world_legacy EC2)) = [''legacy-id'']
   \<and> map asset_id (projr (fst (create_assets_batch world_legacy EC2 [raw_i1])))
       = [''AssetType.ec2_i-1'']
   \<and> map asset_id
        (frame_rows (read_parquet (snd (create_assets_batch world_legacy EC2 [raw_i1])) EC2))
       = [''legacy-id'']"
  by (simp add: create_asset_result make_asset_id_def asset_i1_def batch_legacy
      world_legacy_frame)

text \<open>
  C2 (amended): for every asset type and \<open>unique_id\<close>, the id returned by create, the id
  of the row create stores, the id of every record a successful batch returns (one per
  input, in input order) and the id of every row a successful batch appends equal
  \<open>''AssetType.'' @ asset_type.value @ ''_'' @ unique_id\<close>, a function of the asset type
  and the \<open>unique_id\<close> alone, where \<open>asset_type.value\<close> is the lower-case value of the
  enumeration. A row that was in the table before the batch keeps the id it was stored
  with.
\<close>

theorem asset_id_derived:
  assumes "create_assets_batch w t batch = (Inr rs, w')"
  shows "asset_id (projr (fst (create_asset w t a)))
           = ''AssetType.'' @ asset_type_value t @ ''_'' @ unique_id a
         \<and> asset_id (last (frame_rows (read_parquet (snd (create_asset w t a)) t)))
             = ''AssetType.'' @ asset_type_value t @ ''_'' @ unique_id a
         \<and> map (\<lambda>r. Some (unique_id r)) rs = map raw_unique_id batch
         \<and> map asset_id rs
             = map (\<lambda>r. ''AssetType.'' @ asset_type_value t @ ''_'' @ unique_id r) rs
         \<and> map asset_id (take (length (frame_rows (read_parquet w t)))
                            (frame_rows (read_parquet w' t)))
             = map asset_id (frame_rows (read_parquet w t))
         \<and> list_all (\<lambda>x. asset_id x
                            = ''AssetType.'' @ asset_type_value t @ ''_'' @ unique_id x)
              (drop (length (frame_rows (read_parquet w t)))
                    (frame_rows (read_parquet w' t)))
         \<and> map asset_type_value
               [VPC, SUBNET, EC2, S3, IAM_ROLE, SECURITY_GROUP, USER, IGW, NI, LAMBDA, IAM_POLICY]
             = [''vpc'', ''subnet'', ''ec2'', ''s3'', ''iam_role'', ''sg'', ''user'', ''igw'',
                ''ni'', ''lambda'', ''iam_policy'']"
proof -
  let ?fmt = "\<lambda>u. ''AssetType.'' @ asset_type_value t @ ''_'' @ u"
  have fmt: "make_asset_id t u = ?fmt u" for u
    by (simp add: make_asset_id_def)
  obtain assets where v: "validate_body 0 batch = Inr assets"
    using assms by (cases "validate_body 0 batch") (simp_all add: create_assets_batch_def)
  have ids: "map (\<lambda>a. Some (unique_id a)) assets = map raw_unique_id batch"
    by (rule validate_body_Inr [OF v])
  have handler: "create_assets_batch_handler w t assets = (Inr rs, w')"
    using assms v by (simp add: create_assets_batch_def)
  have batch: "map unique_id rs = map unique_id assets
         \<and> map asset_id rs = map ?fmt (map unique_id assets)
         \<and> map asset_id (take (length (frame_rows (read_parquet w t)))
                            (frame_rows (read_parquet w' t)))
             = map asset_id (frame_rows (read_parquet w t))
         \<and> list_all (\<lambda>x. asset_id x = ?fmt (unique_id x))
              (drop (length (frame_rows (read_parquet w t)))
                    (frame_rows (read_parquet w' t)))"
  proof (cases "read_parquet w t")
    case NoColumns
    then have "assets = []"
      using handler
      by (cases assets) (simp_all add: create_assets_batch_handler_def validate_assets_ok)
    then show ?thesis
      using handler NoColumns
      by (auto simp: create_assets_batch_handler_def validate_assets_ok)
  next
    case (Frame xs)
    from batch_loop_Frame [of t assets xs "[]" w]
    obtain xs' rows' where
      h: "batch_loop t assets (Frame xs) [] w = (Inr (Frame xs', rows'), tick (length assets) w)"
         "map unique_id rows' = map unique_id assets"
         "map asset_id rows' = map (\<lambda>a. make_asset_id t (unique_id a)) assets"
         "map asset_id (take (length xs) xs') = map asset_id xs"
         "list_all (\<lambda>x. asset_id x = make_asset_id t (unique_id x)) (drop (length xs) xs')"
      by auto
    have res: "rs = map (to_asset t) rows'" and w': "w' = put_data (tick (length assets) w) t (Frame xs')"
      using handler Frame h(1)
      by (simp_all add: create_assets_batch_handler_def validate_assets_ok)
    have "map asset_id rs = map ?fmt (map unique_id assets)"
      using h(3) by (simp add: res fmt comp_def)
    moreover have "map unique_id rs = map unique_id assets"
      using h(2) by (simp add: res comp_def)
    ultimately show ?thesis
      using h(4,5) Frame by (simp add: w' fmt)
  qed
  have "map (\<lambda>r. Some (unique_id r)) rs = map Some (map unique_id rs)"
    by simp
  also have "\<dots> = map Some (map unique_id assets)"
    using batch by simp
  also have "\<dots> = map raw_unique_id batch"
    using ids by (simp add: comp_def)
  finally have one: "map (\<lambda>r. Some (unique_id r)) rs = map raw_unique_id batch" .
  have "map asset_id rs = map ?fmt (map unique_id rs)"
    using batch by simp
  then have two: "map asset_id rs = map (\<lambda>r. ?fmt (unique_id r)) rs"
    by (simp add: comp_def)
  show ?thesis
    using one two batch by (simp add: create_asset_table create_asset_result fmt)
qed

theorem asset_id_derived_witness:
  "map asset_id (projr (fst (create_assets_batch world_i1 EC2 [raw_i1, raw_i2])))
     = [''AssetType.ec2_i-1'', ''AssetType.ec2_i-2'']
   \<and> map asset_id
        (frame_rows (read_parquet (snd (create_assets_batch world_i1 EC2 [raw_i1, raw_i2])) EC2))
       = [''AssetType.ec2_i-1'', ''AssetType.ec2_i-2'']
   \<and> asset_id (projr (fst (create_asset world_i1 EC2 asset_i1))) = ''AssetType.ec2_i-1''"
proof -
  note th = asset_id_derived [OF batch_i1_i2, of asset_i1]
  have a: "asset_id (projr (fst (create_asset world_i1 EC2 asset_i1))) = ''AssetType.ec2_i-1''"
    using th [THEN conjunct1] by (simp add: asset_i1_def)
  show ?thesis
    using a by (simp add: batch_i1_i2)
qed

subsection \<open>A table without a data file\<close>

text \<open>
  On a frame without columns every non-empty valid batch fails in its first iteration,
  and nothing is written.
\<close>

lemma create_assets_batch_no_columns:
  assumes "read_parquet w t = NoColumns" and "validate_body 0 batch = Inr (a # as)"
  shows "fst (create_assets_batch w t batch) = Inl (HTTP500 ''unique_id'')
         \<and> data_files (snd (create_assets_batch w t batch)) = data_files w
         \<and> data_puts (snd (create_assets_batch w t batch)) = data_puts w"
  using assms
  by (simp add: create_assets_batch_def create_assets_batch_handler_def validate_assets_ok
      utcnow_def)

text \<open>
  C3 (the code departs from the claim): on an asset type whose data file is absent the
  frame is \<^verbatim>\<open>pd.DataFrame()\<close>, and the first iteration raises \<^verbatim>\<open>KeyError\<close> at
  \<^verbatim>\<open>df['unique_id']\<close>, before the guard \<^verbatim>\<open>len(df) > 0\<close> that was meant for this case.
  The batch of the single valid record \<open>i-2\<close> answers with status 500, appends nothing
  and writes nothing.
\<close>

theorem create_assets_batch_absent_table_fails:
  "fst (create_assets_batch empty_world EC2 [raw_i2]) = Inl (HTTP500 ''unique_id'')
   \<and> data_files (snd (create_assets_batch empty_world EC2 [raw_i2])) EC2 = None
   \<and> data_puts (snd (create_assets_batch empty_world EC2 [raw_i2])) = 0"
  by (simp add: create_assets_batch_def create_assets_batch_handler_def validate_assets_ok
      validate_AssetCreate_def raw_i2_def utcnow_def empty_world_def read_parquet_def)

subsection \<open>A batch with an invalid row\<close>




section \<open>Properties of list_assets_by_type\<close>


lemma list_assets_by_type_page:
  assumes "1 \<le> page" and "1 \<le> limit" and "limit \<le> 1000"
  shows "list_assets_by_type w t page limit =
           Inr (map (to_asset t)
                 (take (nat limit) (drop (nat (page - 1) * nat limit)
                    (frame_rows (read_parquet w t)))))"
proof (cases "data_files w t")
  case None
  then show ?thesis
    using assms by (simp add: list_assets_by_type_def read_parquet_def)
next
  case (Some df)
  let ?xs = "frame_rows df"
  have skip: "nat ((page - 1) * limit) = nat (page - 1) * nat limit"
    using assms by (simp add: nat_mult_distrib)
  show ?thesis
  proof (cases "int (length ?xs) \<le> (page - 1) * limit")
    case True
    then have "length ?xs \<le> nat (page - 1) * nat limit"
      using skip by linarith
    then show ?thesis
      using assms Some True by (simp add: list_assets_by_type_def read_parquet_def)
  next
    case False
    moreover have "0 \<le> (page - 1) * limit"
      using assms by simp
    ultimately have "nat ((page - 1) * limit) < length ?xs"
      by (simp add: nat_less_iff)
    then have lt: "nat (page - 1) * nat limit < length ?xs"
      using skip by simp
    define s l where "s = nat (page - 1) * nat limit" and "l = nat limit"
    have e1: "(page - 1) * limit = int s" and e2: "limit = int l"
      using assms skip by (simp_all add: s_def l_def)
    have "s < length ?xs"
      using lt by (simp add: s_def)
    then have "min (s + l) (length ?xs) - s = min l (length ?xs - s)"
      by arith
    then have "take (min (s + l) (length ?xs) - s) (drop s ?xs) = take l (drop s ?xs)"
      by (simp add: min_def)
    moreover have "iloc ?xs (int s) (min (int s + int l) (int (length ?xs)))
            = take (min (s + l) (length ?xs) - s) (drop s ?xs)"
      by (simp add: iloc_def flip: of_nat_add of_nat_min)
    ultimately have "iloc ?xs ((page - 1) * limit) (min ((page - 1) * limit + limit) (int (length ?xs)))
                 = take (nat limit) (drop (nat (page - 1) * nat limit) ?xs)"
      unfolding e1 unfolding e2 by (simp add: s_def l_def)
    then show ?thesis
      using assms Some False by (simp add: list_assets_by_type_def read_parquet_def Let_def)
  qed
qed

lemma take_drop_nth:
  "take n (drop m xs) = map (\<lambda>i. xs ! i) [m..<min (m + n) (length xs)]"
proof (rule nth_equalityI)
  show "length (take n (drop m xs)) = length (map (\<lambda>i. xs ! i) [m..<min (m + n) (length xs)])"
    by simp
next
  fix i assume "i < length (take n (drop m xs))"
  then have "i < n" and "m + i < length xs"
    by auto
  then show "take n (drop m xs) ! i = map (\<lambda>i. xs ! i) [m..<min (m + n) (length xs)] ! i"
    by simp
qed

lemma concat_pages:
  "concat (map (\<lambda>p. take L (drop ((p - 1) * L) xs)) [1..<Suc k]) = take (k * L) xs"
proof (induction k)
  case 0
  then show ?case by simp
next
  case (Suc k)
  have "concat (map (\<lambda>p. take L (drop ((p - 1) * L) xs)) [1..<Suc (Suc k)])
          = take (k * L) xs @ take L (drop (k * L) xs)"
    using Suc by simp
  also have "\<dots> = take (k * L + L) xs"
    by (simp add: take_add)
  finally show ?case by (simp add: add.commute)
qed

lemma ceil_div_covers: "0 < L \<Longrightarrow> N \<le> ((N + L - 1) div L) * (L::nat)"
proof -
  assume L: "0 < L"
  have "N + L - 1 = ((N + L - 1) div L) * L + (N + L - 1) mod L"
    by simp
  moreover have "(N + L - 1) mod L < L"
    using L by simp
  ultimately show ?thesis using L by linarith
qed

lemma world_three_rows: "frame_rows (read_parquet world_three EC2) = three_rows"
  by (simp add: world_three_def)

lemma length_three_rows: "length three_rows = 3"
  by (simp add: three_rows_def)

text \<open>
  C6: for a table of N rows and a limit L with \<open>1 \<le> L \<le> 1000\<close>, the pages
  \<open>1..ceil(N/L)\<close> concatenated are the N rows, each once and in table order; page
  \<open>ceil(N/L)+1\<close> is empty; and every page \<open>\<ge> 1\<close> is empty (not an error) when
  \<open>skip = (page-1)*L \<ge> N\<close> and otherwise holds the rows \<open>[skip, min(skip+L, N))\<close>.
  An absent data file counts as a table of no rows.
\<close>

theorem pagination_complete:
  assumes "1 \<le> L" and "L \<le> 1000"
  shows "concat (map (\<lambda>p. projr (list_assets_by_type w t (int p) L))
                  [1..<Suc ((length (frame_rows (read_parquet w t)) + nat L - 1) div nat L)])
           = map (to_asset t) (frame_rows (read_parquet w t))
         \<and> list_assets_by_type w t
              (int ((length (frame_rows (read_parquet w t)) + nat L - 1) div nat L) + 1) L = Inr []
         \<and> (\<forall>page\<ge>1.
               (int (length (frame_rows (read_parquet w t))) \<le> (page - 1) * L
                  \<longrightarrow> list_assets_by_type w t page L = Inr [])
             \<and> ((page - 1) * L < int (length (frame_rows (read_parquet w t)))
                  \<longrightarrow> list_assets_by_type w t page L =
                        Inr (map (\<lambda>i. to_asset t (frame_rows (read_parquet w t) ! i))
                              [nat ((page - 1) * L) ..<
                               min (nat ((page - 1) * L) + nat L)
                                   (length (frame_rows (read_parquet w t)))])))"
proof -
  let ?xs = "frame_rows (read_parquet w t)"
  let ?k = "(length ?xs + nat L - 1) div nat L"
  have L0: "0 < nat L" using assms by simp
  have page: "list_assets_by_type w t (int p) L =
                Inr (map (to_asset t) (take (nat L) (drop ((p - 1) * nat L) ?xs)))"
    if "p \<in> set [1..<Suc ?k]" for p
  proof -
    have "1 \<le> int p" using that by auto
    moreover have "nat (int p - 1) = p - 1" by arith
    ultimately show ?thesis
      using list_assets_by_type_page [of "int p" L w t] assms by simp
  qed
  have m: "map (\<lambda>p. projr (list_assets_by_type w t (int p) L)) [1..<Suc ?k]
          = map (\<lambda>p. map (to_asset t) (take (nat L) (drop ((p - 1) * nat L) ?xs))) [1..<Suc ?k]"
    by (rule map_cong) (simp_all add: page del: upt_Suc)
  have "concat (map (\<lambda>p. projr (list_assets_by_type w t (int p) L)) [1..<Suc ?k])
          = concat (map (\<lambda>p. map (to_asset t) (take (nat L) (drop ((p - 1) * nat L) ?xs)))
                      [1..<Suc ?k])"
    by (simp only: m)
  also have "\<dots> = map (to_asset t)
              (concat (map (\<lambda>p. take (nat L) (drop ((p - 1) * nat L) ?xs)) [1..<Suc ?k]))"
    by (simp only: map_concat map_map comp_def)
  also have "\<dots> = map (to_asset t) (take (?k * nat L) ?xs)"
    by (simp only: concat_pages)
  also have "\<dots> = map (to_asset t) ?xs"
    using ceil_div_covers [OF L0, of "length ?xs"] by simp
  finally have a: "concat (map (\<lambda>p. projr (list_assets_by_type w t (int p) L)) [1..<Suc ?k])
          = map (to_asset t) ?xs" .
  have b: "list_assets_by_type w t (int ?k + 1) L = Inr []"
    using list_assets_by_type_page [of "int ?k + 1" L w t] assms
      ceil_div_covers [OF L0, of "length ?xs"]
    by simp
  have c: "(int (length ?xs) \<le> (page - 1) * L \<longrightarrow> list_assets_by_type w t page L = Inr [])
         \<and> ((page - 1) * L < int (length ?xs)
              \<longrightarrow> list_assets_by_type w t page L =
                    Inr (map (\<lambda>i. to_asset t (?xs ! i))
                          [nat ((page - 1) * L) ..<
                           min (nat ((page - 1) * L) + nat L) (length ?xs)]))"
    if "1 \<le> page" for page
  proof -
    have skip: "nat ((page - 1) * L) = nat (page - 1) * nat L"
      using assms that by (simp add: nat_mult_distrib)
    have eq: "list_assets_by_type w t page L =
            Inr (map (to_asset t) (take (nat L) (drop (nat ((page - 1) * L)) ?xs)))"
      using list_assets_by_type_page [OF that assms] skip by simp
    have slice: "map (to_asset t) (take (nat L) (drop (nat ((page - 1) * L)) ?xs))
       = map (\<lambda>i. to_asset t (?xs ! i))
           [nat ((page - 1) * L) ..< min (nat ((page - 1) * L) + nat L) (length ?xs)]"
      by (simp add: take_drop_nth comp_def)
    show ?thesis
    proof (intro conjI impI)
      assume "int (length ?xs) \<le> (page - 1) * L"
      then have "length ?xs \<le> nat ((page - 1) * L)" by linarith
      then show "list_assets_by_type w t page L = Inr []"
        using eq by simp
    next
      assume "(page - 1) * L < int (length ?xs)"
      show "list_assets_by_type w t page L =
              Inr (map (\<lambda>i. to_asset t (?xs ! i))
                    [nat ((page - 1) * L) ..< min (nat ((page - 1) * L) + nat L) (length ?xs)])"
        using eq slice by simp
    qed
  qed
  show ?thesis
    using a b c by blast
qed

theorem pagination_complete_witness:
  "(1::int) \<le> 2 \<and> (2::int) \<le> 1000
   \<and> concat (map (\<lambda>p. projr (list_assets_by_type world_three EC2 (int p) 2)) [1..<3])
       = map (to_asset EC2) three_rows
   \<and> list_assets_by_type world_three EC2 3 2 = Inr []
   \<and> list_assets_by_type world_three EC2 2 2 = Inr [to_asset EC2 (three_rows ! 2)]"
proof -
  have h1: "(1::int) \<le> 2" and h2: "(2::int) \<le> 1000" by simp_all
  note th = pagination_complete [OF h1 h2, of world_three EC2,
      unfolded world_three_rows length_three_rows]
  have k: "((3::nat) + nat 2 - 1) div nat 2 = 2" by simp
  have a: "concat (map (\<lambda>p. projr (list_assets_by_type world_three EC2 (int p) 2)) [1..<3])
       = map (to_asset EC2) three_rows"
    using th [THEN conjunct1] unfolding k by (simp only: eval_nat_numeral)
  have b: "list_assets_by_type world_three EC2 3 2 = Inr []"
    using th [THEN conjunct2, THEN conjunct1] unfolding k by simp
  have c: "list_assets_by_type world_three EC2 2 2 = Inr [to_asset EC2 (three_rows ! 2)]"
    using th [THEN conjunct2, THEN conjunct2, THEN spec, of 2] by simp
  show ?thesis using a b c by simp
qed

section \<open>Properties of update_asset\<close>

text \<open>
  On a table that has columns, input rows whose \<open>unique_id\<close>s are absent (and distinct)
  are appended as given, in input order.
\<close>

lemma update_loop_absent:
  "distinct (map unique_id rs) \<Longrightarrow> set (map unique_id rs) \<inter> set (map unique_id xs) = {}
     \<Longrightarrow> update_loop nine rs (Frame xs) = Inr (Frame (xs @ rs))"
proof (induction rs arbitrary: xs)
  case Nil
  then show ?case by simp
next
  case (Cons r rs)
  have "unique_id r \<notin> unique_id ` set xs"
    using Cons.prems(2) by auto
  then have absent: "True \<notin> set (map (\<lambda>x. unique_id x = unique_id r) xs)"
    by (auto simp: image_iff)
  then have step: "update_row nine r (Frame xs) = Inr (Frame (xs @ [r]))"
    by (simp add: update_row_def concat_row_def)
  have "set (map unique_id rs) \<inter> set (map unique_id (xs @ [r])) = {}"
    using Cons.prems by auto
  with Cons.IH [of "xs @ [r]"] Cons.prems(1)
  have "update_loop nine rs (Frame (xs @ [r])) = Inr (Frame ((xs @ [r]) @ rs))"
    by simp
  then show ?case
    using step by simp
qed

text \<open>
  An input row whose \<open>unique_id\<close> is present in the table, in other than nine rows, makes
  the assignment raise: the row is not replaced.
\<close>

lemma update_row_present:
  assumes "unique_id r \<in> set (map unique_id xs)"
    and "length (filter (\<lambda>x. unique_id x = unique_id r) xs) \<noteq> 9"
  shows "update_row nine r (Frame xs)
           = Inl ''Must have equal len keys and value when setting with an iterable''"
proof -
  have "True \<in> set (map (\<lambda>x. unique_id x = unique_id r) xs)"
    using assms(1) by (auto simp: image_iff)
  then show ?thesis
    using assms(2)
    by (simp add: update_row_def Let_def loc_setitem_series_def comp_def)
qed

text \<open>
  So a call whose first input row is present in the table answers 500 and leaves the
  world as it was, whatever follows in the input.
\<close>

lemma update_asset_present:
  assumes "read_parquet w t = Frame xs" and "unique_id r \<in> set (map unique_id xs)"
    and "length (filter (\<lambda>x. unique_id x = unique_id r) xs) \<noteq> 9"
  shows "update_asset nine w t (r # rs)
           = (Inl (HTTP500 ''Must have equal len keys and value when setting with an iterable''),
              w)"
  using assms by (simp add: update_asset_def update_row_present)

text \<open>
  C4 (the code departs from the claim): the handler is written to ``update existing rows
  and add new ones'', but it does neither in the two cases the claim starts from. On the
  table that holds \<open>i-1\<close>, the input row \<open>i-1\<close> is not replaced in place: the assignment
  \<^verbatim>\<open>df.loc[mask] = row\<close> raises \<^verbatim>\<open>ValueError\<close>, the call answers 500 and the table is
  not written. On an asset type without a data file, the input row \<open>i-9\<close> is not
  appended: \<^verbatim>\<open>df['unique_id']\<close> raises \<^verbatim>\<open>KeyError\<close> on the frame built by the handler's
  own \<^verbatim>\<open>NoSuchKey\<close> branch, the call answers 500 and nothing is written.
\<close>

theorem update_asset_fails:
  "update_asset nine world_i1 EC2 [row_upd]
     = (Inl (HTTP500 ''Must have equal len keys and value when setting with an iterable''),
        world_i1)
   \<and> update_asset nine empty_world EC2 [row_new] = (Inl (HTTP500 ''unique_id''), empty_world)"
proof -
  have p: "unique_id row_upd
             \<in> set (map unique_id [mk_row ''AssetType.ec2_i-1'' asset_i1 100 101])"
    by (simp add: row_upd_def asset_i1_def)
  have n: "length (filter (\<lambda>x. unique_id x = unique_id row_upd)
             [mk_row ''AssetType.ec2_i-1'' asset_i1 100 101]) \<noteq> 9"
    by simp
  have a: "update_asset nine world_i1 EC2 [row_upd]
     = (Inl (HTTP500 ''Must have equal len keys and value when setting with an iterable''),
        world_i1)"
    by (rule update_asset_present [OF world_i1_frame p n])
  have b: "update_asset nine empty_world EC2 [row_new]
             = (Inl (HTTP500 ''unique_id''), empty_world)"
    by (simp add: update_asset_def update_row_def)
  show ?thesis
    using a b by simp
qed

section \<open>Properties of the store client\<close>

lemma UniqueId_crow [simp]: "UniqueId (crow u) = u"
  by (simp add: crow_def)

lemma crow_eq [simp]: "(crow u = crow v) = (u = v)"
  by (simp add: crow_def)

lemma read_remote_empty: "read_assets remote_empty = Inr []"
  by (simp add: read_assets_def remote_empty_def)

lemma read_remote_one: "read_assets remote_one = Inr [crow ''u0'']"
  by (simp add: read_assets_def remote_one_def)

text \<open>
  C9: when the table read by \<^verbatim>\<open>batch_update_assets\<close> is empty, the call returns the
  input updates unchanged, raises nothing and leaves the remote side as it was: no write
  is issued, although every incoming id is absent from the table.
\<close>

theorem batch_update_empty_table:
  assumes "read_assets r = Inr []"
  shows "batch_update_assets setitem r updates = (Inr updates, r)"
  using assms by (simp add: batch_update_assets_def)

theorem batch_update_empty_table_witness:
  "read_assets remote_empty = Inr []
   \<and> (\<forall>setitem. batch_update_assets setitem remote_empty [crow ''u1'', crow ''u2'']
                   = (Inr [crow ''u1'', crow ''u2''], remote_empty))
   \<and> writes remote_empty = []"
proof -
  have w: "writes remote_empty = []" by (simp add: remote_empty_def)
  have a: "\<forall>setitem. batch_update_assets setitem remote_empty [crow ''u1'', crow ''u2'']
                   = (Inr [crow ''u1'', crow ''u2''], remote_empty)"
    by (intro allI) (rule batch_update_empty_table [OF read_remote_empty])
  show ?thesis
    by (intro conjI) (rule read_remote_empty, rule a, rule w)
qed

text \<open>
  C7 (as stated, refuted): with an empty existing table the difference of the incoming
  ids minus the existing ids is \<open>{u1}\<close>, not empty, and yet the call does not fail,
  whatever the library does at the assignment: it returns the updates.
\<close>

theorem batch_update_missing_counterexample:
  "set (map UniqueId [crow ''u1'']) - set (map UniqueId (remote_table remote_empty)) = {''u1''}
   \<and> (\<forall>setitem. \<not> isl (fst (batch_update_assets setitem remote_empty [crow ''u1''])))"
  by (simp add: batch_update_assets_def read_remote_empty) (simp add: remote_empty_def)

text \<open>
  C7 (amended): when the existing table is not empty and the difference of the incoming
  ids minus the existing ids is not empty, the call fails with the error that carries
  exactly that difference, and the remote side is left as it was: no row is modified and
  no write is issued. With an empty existing table the check is skipped.
\<close>

theorem batch_update_missing_ids:
  assumes "read_assets r = Inr existing_df" and "existing_df \<noteq> []"
    and "set (map UniqueId updates) - set (map UniqueId existing_df) \<noteq> {}"
  shows "batch_update_assets setitem r updates
           = (Inl (AssetsNotFound
                    (set (map UniqueId updates) - set (map UniqueId existing_df))), r)"
proof -
  have "updates \<noteq> []"
    using assms(3) by auto
  then show ?thesis
    using assms by (simp add: batch_update_assets_def)
qed

theorem batch_update_missing_ids_witness:
  "read_assets remote_one = Inr [crow ''u0''] \<and> [crow ''u0''] \<noteq> []
   \<and> (\<forall>setitem. batch_update_assets setitem remote_one [crow ''u0'', crow ''u1'', crow ''u2'']
                   = (Inl (AssetsNotFound {''u1'', ''u2''}), remote_one))"
proof -
  have h2: "[crow ''u0''] \<noteq> []" by simp
  have h3: "set (map UniqueId [crow ''u0'', crow ''u1'', crow ''u2''])
              - set (map UniqueId [crow ''u0'']) \<noteq> {}"
    by simp
  have d: "set (map UniqueId [crow ''u0'', crow ''u1'', crow ''u2''])
              - set (map UniqueId [crow ''u0'']) = {''u1'', ''u2''}"
    by auto
  have a: "\<forall>setitem. batch_update_assets setitem remote_one [crow ''u0'', crow ''u1'', crow ''u2'']
                   = (Inl (AssetsNotFound {''u1'', ''u2''}), remote_one)"
    by (intro allI) (rule batch_update_missing_ids [OF read_remote_one h2 h3, unfolded d])
  show ?thesis
    by (intro conjI) (rule read_remote_one, rule h2, rule a)
qed

text \<open>
  What \<^verbatim>\<open>batch_create_assets\<close> does after a successful read, in full: when some incoming
  id is in the existing table the call fails with exactly the ids in both and writes
  nothing; otherwise it writes the existing rows followed by the batch and returns the
  batch.
\<close>

lemma batch_create_assets_cases:
  assumes "read_assets r = Inr existing_df"
  shows "(set (map UniqueId assets) \<inter> set (map UniqueId existing_df) \<noteq> {}
            \<longrightarrow> batch_create_assets r assets
                  = (Inl (DuplicateUniqueIds
                           (set (map UniqueId assets) \<inter> set (map UniqueId existing_df))), r))
         \<and> (set (map UniqueId assets) \<inter> set (map UniqueId existing_df) = {}
            \<longrightarrow> batch_create_assets r assets
                  = (Inr assets, r\<lparr>remote_table := existing_df @ assets,
                                    writes := writes r @ [existing_df @ assets]\<rparr>))"
proof -
  have reach: "reachable r"
    using assms by (auto simp: read_assets_def split: if_splits)
  have comb: "(if existing_df = [] then assets
               else if assets = [] then existing_df else existing_df @ assets)
              = existing_df @ assets"
    by simp
  have wr: "write_assets r (existing_df @ assets)
              = Inr (r\<lparr>remote_table := existing_df @ assets,
                          writes := writes r @ [existing_df @ assets]\<rparr>)"
    using reach by (simp add: write_assets_def)
  have rej: "batch_create_assets r assets
               = (Inl (DuplicateUniqueIds
                        (set (map UniqueId assets) \<inter> set (map UniqueId existing_df))), r)"
    if "set (map UniqueId assets) \<inter> set (map UniqueId existing_df) \<noteq> {}"
  proof -
    have c1: "existing_df \<noteq> []" and c2: "assets \<noteq> []"
      using that by auto
    show ?thesis
      using that c1 c2 by (simp add: batch_create_assets_def assms)
  qed
  have run: "batch_create_assets r assets
               = (Inr assets, r\<lparr>remote_table := existing_df @ assets,
                                 writes := writes r @ [existing_df @ assets]\<rparr>)"
    if "set (map UniqueId assets) \<inter> set (map UniqueId existing_df) = {}"
  proof -
    have c: "\<not> (existing_df \<noteq> [] \<and> assets \<noteq> []
                \<and> set (map UniqueId assets) \<inter> set (map UniqueId existing_df) \<noteq> {})"
      using that by blast
    show ?thesis
      unfolding batch_create_assets_def assms Let_def
      by (simp only: c comb wr if_False sum.case)
  qed
  show ?thesis
    using rej run by blast
qed

text \<open>
  C10 (as stated, refuted): the batch \<open>[d, d, u0]\<close> holds two records with the same
  \<open>UniqueId\<close> \<open>d\<close>, which is not in the existing table \<open>[u0]\<close>; they are not appended.
  The third record collides with the table, the call fails naming \<open>u0\<close> alone, and
  nothing is written.
\<close>

theorem batch_create_duplicates_counterexample:
  "UniqueId ([crow ''d'', crow ''d'', crow ''u0''] ! 0)
     = UniqueId ([crow ''d'', crow ''d'', crow ''u0''] ! 1)
   \<and> UniqueId ([crow ''d'', crow ''d'', crow ''u0''] ! 0)
       \<notin> set (map UniqueId (remote_table remote_one))
   \<and> batch_create_assets remote_one [crow ''d'', crow ''d'', crow ''u0'']
       = (Inl (DuplicateUniqueIds {''u0''}), remote_one)"
proof -
  have i: "set (map UniqueId [crow ''d'', crow ''d'', crow ''u0''])
             \<inter> set (map UniqueId [crow ''u0'']) = {''u0''}"
    by auto
  have "batch_create_assets remote_one [crow ''d'', crow ''d'', crow ''u0'']
          = (Inl (DuplicateUniqueIds {''u0''}), remote_one)"
    using batch_create_assets_cases [OF read_remote_one, of "[crow ''d'', crow ''d'', crow ''u0'']"]
    unfolding i by simp
  then show ?thesis
    by (simp add: remote_one_def)
qed

text \<open>
  C10 (amended): the pre-check of \<^verbatim>\<open>batch_create_assets\<close> compares the incoming ids with
  the existing table only, never with each other. For every batch with two input records
  that share a \<open>UniqueId\<close> absent from the existing table: if some other record of the
  batch has an id that is in the table, the call fails with the error naming exactly the
  ids in both, the shared id is not among them, and nothing is written; if no incoming id
  is in the table, the call succeeds and writes the existing rows followed by the whole
  batch, both records included, so the written table has a duplicate key. With an empty
  existing table the pre-check is skipped and the batch is written as it is.
\<close>

theorem batch_create_in_batch_duplicates:
  assumes "read_assets r = Inr existing_df"
    and "i < j" and "j < length assets"
    and "UniqueId (assets ! i) = UniqueId (assets ! j)"
    and "UniqueId (assets ! i) \<notin> set (map UniqueId existing_df)"
  shows "(set (map UniqueId assets) \<inter> set (map UniqueId existing_df) \<noteq> {}
            \<longrightarrow> batch_create_assets r assets
                  = (Inl (DuplicateUniqueIds
                           (set (map UniqueId assets) \<inter> set (map UniqueId existing_df))), r)
                \<and> UniqueId (assets ! i)
                    \<notin> set (map UniqueId assets) \<inter> set (map UniqueId existing_df))
         \<and> (set (map UniqueId assets) \<inter> set (map UniqueId existing_df) = {}
            \<longrightarrow> batch_create_assets r assets
                  = (Inr assets, r\<lparr>remote_table := existing_df @ assets,
                                    writes := writes r @ [existing_df @ assets]\<rparr>)
                \<and> \<not> distinct (map UniqueId (existing_df @ assets)))
         \<and> (existing_df = []
            \<longrightarrow> batch_create_assets r assets
                  = (Inr assets, r\<lparr>remote_table := assets, writes := writes r @ [assets]\<rparr>))"
proof -
  have il: "i < length assets" using assms(2,3) by simp
  have "\<not> distinct (map UniqueId assets)"
  proof
    assume "distinct (map UniqueId assets)"
    from nth_eq_iff_index_eq [OF this, of i j] il assms(2,3,4)
    show False by simp
  qed
  then have dup: "\<not> distinct (map UniqueId (existing_df @ assets))"
    by simp
  have flagged: "UniqueId (assets ! i)
                   \<notin> set (map UniqueId assets) \<inter> set (map UniqueId existing_df)"
    using assms(5) by simp
  note cases = batch_create_assets_cases [OF assms(1), of assets]
  have empty: "batch_create_assets r assets
                 = (Inr assets, r\<lparr>remote_table := assets, writes := writes r @ [assets]\<rparr>)"
    if "existing_df = []"
    using cases [THEN conjunct2] that by simp
  show ?thesis
    using cases flagged dup empty by blast
qed

theorem batch_create_in_batch_duplicates_witness:
  "read_assets remote_one = Inr [crow ''u0'']
   \<and> UniqueId ([crow ''d'', crow ''d''] ! 0) = UniqueId ([crow ''d'', crow ''d''] ! 1)
   \<and> UniqueId ([crow ''d'', crow ''d''] ! 0) \<notin> set (map UniqueId [crow ''u0''])
   \<and> set (map UniqueId [crow ''d'', crow ''d'']) \<inter> set (map UniqueId [crow ''u0'']) = {}
   \<and> batch_create_assets remote_one [crow ''d'', crow ''d'']
       = (Inr [crow ''d'', crow ''d''],
          remote_one\<lparr>remote_table := [crow ''u0'', crow ''d'', crow ''d''],
                       writes := [[crow ''u0'', crow ''d'', crow ''d'']]\<rparr>)
   \<and> \<not> distinct (map UniqueId [crow ''u0'', crow ''d'', crow ''d''])"
proof -
  have h2: "(0::nat) < 1" and h3: "1 < length [crow ''d'', crow ''d'']" by simp_all
  have h4: "UniqueId ([crow ''d'', crow ''d''] ! 0) = UniqueId ([crow ''d'', crow ''d''] ! 1)"
    by simp
  have h5: "UniqueId ([crow ''d'', crow ''d''] ! 0) \<notin> set (map UniqueId [crow ''u0''])"
    by simp
  have w: "writes remote_one = []" by (simp add: remote_one_def)
  have e: "set (map UniqueId [crow ''d'', crow ''d'']) \<inter> set (map UniqueId [crow ''u0'']) = {}"
    by simp
  note th = batch_create_in_batch_duplicates [OF read_remote_one h2 h3 h4 h5,
      THEN conjunct2, THEN conjunct1, rule_format, OF e]
  show ?thesis
    using th h4 h5 e by (simp add: read_remote_one w)
qed

section \<open>Properties of the batch create with fallback\<close>

lemma length_attempt_each: "length (fst (attempt_each post s as)) = length as"
proof (induction as arbitrary: s)
  case Nil
  then show ?case by simp
next
  case (Cons a as)
  obtain res s' where p: "post s a = (res, s')"
    by (cases "post s a")
  obtain rs s'' where q: "attempt_each post s' as = (rs, s'')"
    by (cases "attempt_each post s' as")
  from Cons.IH [of s'] q have "length rs = length as" by simp
  then show ?case using p q by simp
qed

lemma fallback_loop_attempt_each:
  "fallback_loop post as created log s =
     (created @ succeeded (fst (attempt_each post s (map format_asset as))),
      log @ zip (map format_asset as) (fst (attempt_each post s (map format_asset as))),
      snd (attempt_each post s (map format_asset as)))"
proof (induction as arbitrary: created log s)
  case Nil
  then show ?case by simp
next
  case (Cons a as)
  obtain res s' where p: "post s (format_asset a) = (res, s')"
    by (cases "post s (format_asset a)")
  obtain rs s'' where q: "attempt_each post s' (map format_asset as) = (rs, s'')"
    by (cases "attempt_each post s' (map format_asset as)")
  show ?case
  proof (cases res)
    case (Success x)
    then show ?thesis
      using p q Cons.IH [of "created @ [x]" "log @ [(format_asset a, Success x)]" s']
      by simp
  next
    case (HTTPStatusError c)
    then show ?thesis
      using p q Cons.IH [of created "log @ [(format_asset a, HTTPStatusError c)]" s']
      by simp
  next
    case OtherException
    then show ?thesis
      using p q Cons.IH [of created "log @ [(format_asset a, OtherException)]" s']
      by simp
  qed
qed

lemma length_succeeded:
  "length (succeeded rs) + length (filter (\<lambda>r. succeeded [r] = []) rs) = length rs"
  by (induction rs rule: succeeded.induct) simp_all

text \<open>
  C8: when the batch call fails with an HTTP status error the facade raises nothing; it
  attempts exactly one individual create per submitted record, in input order, and
  returns exactly the records whose individual create succeeded, the failures being
  logged only. So the number of records returned is the number submitted minus the
  number of individual failures.
\<close>

theorem fallback_returns_successes:
  assumes "post_batch s assets = (HTTPStatusError code, s')"
  shows "fst (service_create_assets_batch post_batch post s assets)
           = Inr (succeeded (fst (attempt_each post s' (map format_asset assets))))
         \<and> map fst (fst (snd (service_create_assets_batch post_batch post s assets)))
             = map format_asset assets
         \<and> map snd (fst (snd (service_create_assets_batch post_batch post s assets)))
             = fst (attempt_each post s' (map format_asset assets))
         \<and> length (fst (snd (service_create_assets_batch post_batch post s assets)))
             = length assets
         \<and> length (projr (fst (service_create_assets_batch post_batch post s assets)))
             + length (filter (\<lambda>r. succeeded [r] = [])
                        (fst (attempt_each post s' (map format_asset assets))))
             = length assets"
proof -
  let ?rs = "fst (attempt_each post s' (map format_asset assets))"
  have len: "length ?rs = length (map format_asset assets)"
    by (rule length_attempt_each)
  have run: "service_create_assets_batch post_batch post s assets
               = (Inr (succeeded ?rs), zip (map format_asset assets) ?rs,
                  snd (attempt_each post s' (map format_asset assets)))"
    using assms by (simp add: service_create_assets_batch_def fallback_loop_attempt_each)
  show ?thesis
    unfolding run using len length_succeeded [of ?rs] by simp
qed

theorem fallback_returns_successes_witness:
  "reject_batch 0 five_assets = (HTTPStatusError 422, 0)
   \<and> length five_assets = 5
   \<and> length (fst (snd (service_create_assets_batch reject_batch post_named 0 five_assets))) = 5
   \<and> map unique_id (projr (fst (service_create_assets_batch reject_batch post_named 0 five_assets)))
       = [''i-1'', ''i-2'', ''i-1'']
   \<and> snd (snd (service_create_assets_batch reject_batch post_named 0 five_assets)) = 5"
proof -
  have h: "reject_batch 0 five_assets = (HTTPStatusError 422, 0)"
    by (simp add: reject_batch_def)
  have ev: "map unique_id (succeeded (fst (attempt_each post_named 0 (map format_asset five_assets))))
              = [''i-1'', ''i-2'', ''i-1'']"
    by (simp add: five_assets_def post_named_def format_asset_def raw_i1_def raw_i2_def
        raw_bad_def)
  have st: "snd (snd (service_create_assets_batch reject_batch post_named 0 five_assets)) = 5"
    by (simp add: service_create_assets_batch_def reject_batch_def five_assets_def
        post_named_def format_asset_def raw_i1_def raw_i2_def raw_bad_def)
  note th = fallback_returns_successes [where post_batch = reject_batch and s = 0
      and assets = five_assets and code = 422 and s' = 0 and post = post_named, OF h]
  have l: "length five_assets = 5" by (simp add: five_assets_def)
  show ?thesis
    using th ev st h l by simp
qed

end
